theory Spec2Isabelle
  imports Main "HOL-Library.Char_ord" "HOL-Library.List_Lexorder" "HOL-Library.Multiset"
begin

section \<open>The relations read by the gateway\<close>

text \<open>
  Modelled from the spec: the schema of the three relations, which the repository does not
  declare (the source only names their columns inside its SQL text). Section 3 of the
  specification gives them as: genomes with an identifier and the accession string
  \<open>refseq_acc\<close>; genome_annotations joining a genome identifier to a taxon identifier;
  taxa with an identifier, a name and a rank. Identifiers are integers, the other columns
  are strings (byte strings: a \<open>char\<close> is one byte of the UTF-8 text). The field
  names carry the alias the queries give the table (\<open>g\<close>, \<open>ga\<close>, \<open>t\<close>).
  A table is the list of its rows, in the order of insertion.
\<close>

record genomes_row =
  g_id :: int
  g_refseq_acc :: string

record genome_annotations_row =
  ga_genome_id :: int
  ga_taxon_id :: int

record taxa_row =
  t_id :: int
  t_name :: string
  t_rank :: string

text \<open>The SQL texts of the three methods, by the method that holds them.\<close>

datatype statement =
    Sql_find_species_from_accession
  | Sql_get_species_from_genomes_accession
  | Sql_get_all_genomes_for_a_species

text \<open>
  The database behind a connection. \<open>fault\<close> is the condition of the file and of the
  engine: \<open>None\<close> when statements run, \<open>Some msg\<close> when executing a statement raises
  \<open>sqlite3.Error\<close> with message \<open>msg\<close> (a missing table, a file that is not a
  database, an I/O error).

  \<open>plan\<close> is the engine's query plan, as far as a caller can see it: SQL leaves open the
  order in which the rows of a join come out, and the engine's planner settles it from the
  schema, its indexes and its statistics. For a statement and its bound parameter, the plan
  is the code of a permutation (see \<open>permute\<close> below); the joined rows come out in
  that order.
\<close>

record database =
  genomes :: "genomes_row list"
  genome_annotations :: "genome_annotations_row list"
  taxa :: "taxa_row list"
  fault :: "string option"
  plan :: "statement \<Rightarrow> string \<Rightarrow> nat list"

text \<open>
  What \<open>sqlite3.connect\<close> finds at a location: a database, or the message of the
  \<open>sqlite3.Error\<close> it raises.
\<close>

type_synonym filesystem = "string \<Rightarrow> string + database"

section \<open>The three SQL statements\<close>

type_synonym row = "string list"

type_synonym joined_row = "genomes_row \<times> genome_annotations_row \<times> taxa_row"

text \<open>
  \<open>FROM genomes JOIN genome_annotations ON genomes.id = genome_annotations.genome_id
  JOIN taxa ON genome_annotations.taxon_id = taxa.id\<close>: the triples of rows that agree
  on the identifiers. The list enumerates them once each; its order is not the order in
  which the engine yields them, which is that of the plan.
\<close>

definition join_all :: "database \<Rightarrow> joined_row list" where
  "join_all d =
     [(g, ga, t).
        g \<leftarrow> genomes d,
        ga \<leftarrow> genome_annotations d, g_id g = ga_genome_id ga,
        t \<leftarrow> taxa d, ga_taxon_id ga = t_id t]"

text \<open>The same join with \<open>AND t.rank = 'species'\<close> in the second \<open>ON\<close> clause.\<close>

definition join_species :: "database \<Rightarrow> joined_row list" where
  "join_species d =
     [(g, ga, t).
        g \<leftarrow> genomes d,
        ga \<leftarrow> genome_annotations d, g_id g = ga_genome_id ga,
        t \<leftarrow> taxa d, ga_taxon_id ga = t_id t \<and> t_rank t = ''species'']"

text \<open>The joined rows that pass the \<open>WHERE\<close> clause of a statement.\<close>

fun matching_rows :: "database \<Rightarrow> statement \<Rightarrow> string \<Rightarrow> joined_row list" where
  "matching_rows d Sql_find_species_from_accession p =
     filter (\<lambda>(g, ga, t). g_refseq_acc g = p) (join_all d)"
| "matching_rows d Sql_get_species_from_genomes_accession p =
     filter (\<lambda>(g, ga, t). g_refseq_acc g = p) (join_species d)"
| "matching_rows d Sql_get_all_genomes_for_a_species p =
     filter (\<lambda>(g, ga, t). t_name t = p) (join_species d)"

text \<open>
  A permutation by its code: each element is put into the arrangement of the elements
  after it, at the position the code gives (at the end when the position is beyond it).
  Every code gives a permutation of the list and every permutation has a code; the empty
  code leaves the list as it is.
\<close>

fun insert_at :: "nat \<Rightarrow> 'a \<Rightarrow> 'a list \<Rightarrow> 'a list" where
  "insert_at 0 x ys = x # ys"
| "insert_at (Suc k) x [] = [x]"
| "insert_at (Suc k) x (y # ys) = y # insert_at k x ys"

fun permute :: "nat list \<Rightarrow> 'a list \<Rightarrow> 'a list" where
  "permute ks [] = []"
| "permute [] (x # xs) = x # xs"
| "permute (k # ks) (x # xs) = insert_at k x (permute ks xs)"

text \<open>The matching rows in the order the engine yields them.\<close>

definition engine_rows :: "database \<Rightarrow> statement \<Rightarrow> string \<Rightarrow> joined_row list" where
  "engine_rows d sql p = permute (plan d sql p) (matching_rows d sql p)"

text \<open>
  \<open>GROUP_CONCAT(X)\<close> with its default separator, the comma. On an empty group SQL
  gives NULL; a group of \<open>GROUP BY\<close> is never empty.
\<close>

fun GROUP_CONCAT :: "string list \<Rightarrow> string" where
  "GROUP_CONCAT [] = []"
| "GROUP_CONCAT [x] = x"
| "GROUP_CONCAT (x # y # ys) = x @ CHR '','' # GROUP_CONCAT (y # ys)"

text \<open>
  \<open>SELECT t.name, GROUP_CONCAT(g.refseq_acc) ... GROUP BY t.name\<close>: one row per
  distinct name, the groups in ascending order of the name (SQLite groups by sorting, under
  the bytewise collation), the accessions of a group in the order in which the engine
  yields the joined rows.
\<close>

definition group_by_name :: "joined_row list \<Rightarrow> row list" where
  "group_by_name js =
     map (\<lambda>n. [n, GROUP_CONCAT (map (\<lambda>(g, ga, t). g_refseq_acc g)
                                    (filter (\<lambda>(g, ga, t). t_name t = n) js))])
         (sort (remdups (map (\<lambda>(g, ga, t). t_name t) js)))"

fun run_statement :: "database \<Rightarrow> statement \<Rightarrow> string \<Rightarrow> row list" where
  "run_statement d Sql_find_species_from_accession p =
     map (\<lambda>(g, ga, t). [t_name t]) (engine_rows d Sql_find_species_from_accession p)"
| "run_statement d Sql_get_species_from_genomes_accession p =
     group_by_name (engine_rows d Sql_get_species_from_genomes_accession p)"
| "run_statement d Sql_get_all_genomes_for_a_species p =
     group_by_name (engine_rows d Sql_get_all_genomes_for_a_species p)"

section \<open>The cursor\<close>

text \<open>
  A cursor holds its connection's database and the rows of the last statement that have
  not been fetched yet.
\<close>

record cursor =
  conn :: database
  pending :: "row list"

text \<open>
  \<open>cursor.execute(sql, (p,))\<close>: drops what was pending; returns the message of the
  \<open>sqlite3.Error\<close> when the engine raises one.
\<close>

definition execute :: "cursor \<Rightarrow> statement \<Rightarrow> string \<Rightarrow> cursor \<times> string option" where
  "execute c sql p =
     (case fault (conn c) of
        Some msg \<Rightarrow> (c\<lparr>pending := []\<rparr>, Some msg)
      | None \<Rightarrow> (c\<lparr>pending := run_statement (conn c) sql p\<rparr>, None))"

definition fetchone :: "cursor \<Rightarrow> cursor \<times> row option" where
  "fetchone c =
     (case pending c of
        [] \<Rightarrow> (c, None)
      | r # rs \<Rightarrow> (c\<lparr>pending := rs\<rparr>, Some r))"

definition fetchall :: "cursor \<Rightarrow> cursor \<times> row list" where
  "fetchall c = (c\<lparr>pending := []\<rparr>, pending c)"

section \<open>Python values and outcomes\<close>

datatype exn = Sqlite3_Error string | IndexError | ValueError string

text \<open>
  How a call ends: it returns a value, it raises an exception to its caller, or it ends
  the process with an exit status (\<open>exit(1)\<close>).
\<close>

datatype 'a outcome = Return 'a | Raise exn | Exit int

definition subscript :: "'a list \<Rightarrow> nat \<Rightarrow> exn + 'a" where
  "subscript xs i = (if i < length xs then Inr (xs ! i) else Inl IndexError)"

text \<open>
  \<open>s.split(sep)\<close> for a separator of one character: every occurrence of the
  separator ends a piece, so the result has one piece more than \<open>s\<close> has separators,
  and the empty string gives one empty piece.
\<close>

fun str_split :: "char \<Rightarrow> string \<Rightarrow> string list" where
  "str_split sep [] = [[]]"
| "str_split sep (c # cs) =
     (if c = sep then [] # str_split sep cs
      else (case str_split sep cs of
              [] \<Rightarrow> [[c]]
            | w # ws \<Rightarrow> (c # w) # ws))"

text \<open>
  \<open>{row[0]: row[1].split(",") for row in results}\<close>: the rows in order, a later row
  replacing the value of an equal key.
\<close>

fun dict_of_rows :: "row list \<Rightarrow> (string \<rightharpoonup> string list) \<Rightarrow> exn + (string \<rightharpoonup> string list)" where
  "dict_of_rows [] m = Inr m"
| "dict_of_rows (row # rows) m =
     (case subscript row 0 of
        Inl e \<Rightarrow> Inl e
      | Inr k \<Rightarrow>
          (case subscript row 1 of
             Inl e \<Rightarrow> Inl e
           | Inr v \<Rightarrow> dict_of_rows rows (m(k \<mapsto> str_split CHR '','' v))))"

section \<open>The gateway: class DatabaseQueries\<close>

record gateway =
  database_filename :: string
  cursor :: cursor

text \<open>
  A method call gives the gateway after it, the lines it logged, and its outcome. The
  constructor has no gateway before it: it reads the location in a file system.
\<close>

text \<open>
  \<open>sqlite3.connect(database)\<close>: a file name with a NUL byte in it is refused with
  \<open>ValueError\<close> before the engine is asked; otherwise the engine opens the location or
  raises \<open>sqlite3.Error\<close>.
\<close>

definition sqlite3_connect :: "filesystem \<Rightarrow> string \<Rightarrow> exn + database" where
  "sqlite3_connect fs database =
     (if CHR 0x00 \<in> set database then Inl (ValueError ''embedded null byte'')
      else (case fs database of
              Inl msg \<Rightarrow> Inl (Sqlite3_Error msg)
            | Inr d \<Rightarrow> Inr d))"

text \<open>
  \<open>connect_to_db\<close> catches \<open>sqlite3.Error\<close> only; any other exception goes on to
  the caller.
\<close>

definition connect_to_db :: "filesystem \<Rightarrow> string \<Rightarrow> string list \<times> cursor outcome" where
  "connect_to_db fs db_name =
     (case sqlite3_connect fs db_name of
        Inr d \<Rightarrow> ([], Return \<lparr>conn = d, pending = []\<rparr>)
      | Inl e \<Rightarrow>
          (case e of
             Sqlite3_Error msg \<Rightarrow> ([''Error connecting to the database: '' @ msg], Exit 1)
           | _ \<Rightarrow> ([], Raise e)))"

text \<open>The constructor \<open>DatabaseQueries(database_filename)\<close>, that is \<open>__init__\<close>.\<close>

definition DatabaseQueries :: "filesystem \<Rightarrow> string \<Rightarrow> string list \<times> gateway outcome" where
  "DatabaseQueries fs filename =
     (case connect_to_db fs filename of
        (lg, Return c) \<Rightarrow> (lg, Return \<lparr>database_filename = filename, cursor = c\<rparr>)
      | (lg, Raise e) \<Rightarrow> (lg, Raise e)
      | (lg, Exit n) \<Rightarrow> (lg, Exit n))"

definition find_species_from_accession ::
  "gateway \<Rightarrow> string \<Rightarrow> gateway \<times> string list \<times> string outcome" where
  "find_species_from_accession self closest_accession =
     (case execute (cursor self) Sql_find_species_from_accession closest_accession of
        (c1, Some msg) \<Rightarrow> (self\<lparr>cursor := c1\<rparr>, [], Raise (Sqlite3_Error msg))
      | (c1, None) \<Rightarrow>
          (case fetchone c1 of
             (c2, species_name) \<Rightarrow>
               (self\<lparr>cursor := c2\<rparr>, [],
                Return (case species_name of
                          None \<Rightarrow> ''Unknown''
                        | Some r \<Rightarrow> (if r \<noteq> [] then r ! 0 else ''Unknown'')))))"

definition get_species_from_genomes_accession_from_db ::
  "gateway \<Rightarrow> string \<Rightarrow> gateway \<times> string list \<times> string option outcome" where
  "get_species_from_genomes_accession_from_db self genome_accession =
     (case execute (cursor self) Sql_get_species_from_genomes_accession genome_accession of
        (c1, Some msg) \<Rightarrow>
          (self\<lparr>cursor := c1\<rparr>,
           [''get_species_from_genomes_accession_from_db - Database query error: '' @ msg],
           Exit 1)
      | (c1, None) \<Rightarrow>
          (case fetchall c1 of
             (c2, results) \<Rightarrow>
               (self\<lparr>cursor := c2\<rparr>, [],
                if length results = 0 then Return None
                else (case subscript results 0 of
                        Inl e \<Rightarrow> Raise e
                      | Inr r \<Rightarrow>
                          (case subscript r 0 of
                             Inl e \<Rightarrow> Raise e
                           | Inr species \<Rightarrow> Return (Some species))))))"

definition get_all_genomes_for_a_species_from_db ::
  "gateway \<Rightarrow> string \<Rightarrow> gateway \<times> string list \<times> (string \<rightharpoonup> string list) outcome" where
  "get_all_genomes_for_a_species_from_db self species =
     (case execute (cursor self) Sql_get_all_genomes_for_a_species species of
        (c1, Some msg) \<Rightarrow>
          (self\<lparr>cursor := c1\<rparr>,
           [''get_all_genomes_for_a_species_from_db - Database query error: '' @ msg],
           Exit 1)
      | (c1, None) \<Rightarrow>
          (case fetchall c1 of
             (c2, results) \<Rightarrow>
               (self\<lparr>cursor := c2\<rparr>, [],
                (case dict_of_rows results Map.empty of
                   Inl e \<Rightarrow> Raise e
                 | Inr m \<Rightarrow> Return m))))"

text \<open>
  The strings that \<open>GROUP_CONCAT\<close> is given for a species: the accession column of
  the rows the engine yields for the third statement, in that order.
\<close>

definition aggregated_accessions :: "database \<Rightarrow> string \<Rightarrow> string list" where
  "aggregated_accessions d species =
     map (\<lambda>(g, ga, t). g_refseq_acc g) (engine_rows d Sql_get_all_genomes_for_a_species species)"

section \<open>What the specification asks of the queries\<close>

text \<open>
  The specification's own reading of the two lookups, to compare the methods with: the
  names of the taxa a genome with the given accession is annotated to, whatever their rank
  (with the species rank only, for the second), and the accessions of the genomes annotated
  at species rank to a taxon of the given name. Each lists the triples of rows that agree on
  the identifiers, once each, by the order of insertion; the methods are compared with them
  as collections, since the order of the results is the engine's.
\<close>

definition taxon_names_of_accession :: "database \<Rightarrow> string \<Rightarrow> string list" where
  "taxon_names_of_accession d acc =
     [t_name t.
        g \<leftarrow> genomes d, ga \<leftarrow> genome_annotations d, t \<leftarrow> taxa d,
        g_id g = ga_genome_id ga \<and> ga_taxon_id ga = t_id t \<and> g_refseq_acc g = acc]"

definition species_names_of_accession :: "database \<Rightarrow> string \<Rightarrow> string list" where
  "species_names_of_accession d acc =
     [t_name t.
        g \<leftarrow> genomes d, ga \<leftarrow> genome_annotations d, t \<leftarrow> taxa d,
        g_id g = ga_genome_id ga \<and> ga_taxon_id ga = t_id t
          \<and> t_rank t = ''species'' \<and> g_refseq_acc g = acc]"

definition accessions_of_species :: "database \<Rightarrow> string \<Rightarrow> string list" where
  "accessions_of_species d species =
     [g_refseq_acc g.
        g \<leftarrow> genomes d, ga \<leftarrow> genome_annotations d, t \<leftarrow> taxa d,
        g_id g = ga_genome_id ga \<and> ga_taxon_id ga = t_id t
          \<and> t_rank t = ''species'' \<and> t_name t = species]"

section \<open>The parts of a call's result\<close>

definition gateway_after :: "gateway \<times> string list \<times> 'a outcome \<Rightarrow> gateway" where
  "gateway_after run = fst run"

definition logged :: "gateway \<times> string list \<times> 'a outcome \<Rightarrow> string list" where
  "logged run = fst (snd run)"

definition outcome_of :: "gateway \<times> string list \<times> 'a outcome \<Rightarrow> 'a outcome" where
  "outcome_of run = snd (snd run)"

section \<open>Example databases\<close>

text \<open>
  A gateway freshly constructed on a database: nothing is pending on its cursor. The engines
  of the examples yield the rows in the order of insertion (the empty plan), but for
  \<open>planned_db\<close>.
\<close>

definition gateway_on :: "database \<Rightarrow> gateway" where
  "gateway_on d = \<lparr>database_filename = ''gambit.gdb'', cursor = \<lparr>conn = d, pending = []\<rparr>\<rparr>"

text \<open>
  The scenario of section 8 of the specification: two genomes annotated at species rank to
  the taxon named Escherichia coli.
\<close>

definition ecoli_db :: database where
  "ecoli_db =
     \<lparr>genomes = [\<lparr>g_id = 1, g_refseq_acc = ''GCF_000001''\<rparr>,
                 \<lparr>g_id = 2, g_refseq_acc = ''GCF_000002''\<rparr>],
      genome_annotations = [\<lparr>ga_genome_id = 1, ga_taxon_id = 10\<rparr>,
                            \<lparr>ga_genome_id = 2, ga_taxon_id = 10\<rparr>],
      taxa = [\<lparr>t_id = 10, t_name = ''Escherichia coli'', t_rank = ''species''\<rparr>],
      fault = None,
      plan = (\<lambda>sql p. [])\<rparr>"

text \<open>
  One genome annotated at two ranks, the genus first; a second genome annotated at genus
  rank only.
\<close>

definition ranks_db :: database where
  "ranks_db =
     \<lparr>genomes = [\<lparr>g_id = 1, g_refseq_acc = ''GCF_000001''\<rparr>,
                 \<lparr>g_id = 2, g_refseq_acc = ''GCF_000002''\<rparr>],
      genome_annotations = [\<lparr>ga_genome_id = 1, ga_taxon_id = 5\<rparr>,
                            \<lparr>ga_genome_id = 1, ga_taxon_id = 10\<rparr>,
                            \<lparr>ga_genome_id = 2, ga_taxon_id = 5\<rparr>],
      taxa = [\<lparr>t_id = 5, t_name = ''Escherichia'', t_rank = ''genus''\<rparr>,
              \<lparr>t_id = 10, t_name = ''Escherichia coli'', t_rank = ''species''\<rparr>],
      fault = None,
      plan = (\<lambda>sql p. [])\<rparr>"

text \<open>
  The scenario with the genomes inserted in the other order, behind an engine that walks
  the annotations first: of the two matching rows, it yields the second one first.
\<close>

definition planned_db :: database where
  "planned_db =
     \<lparr>genomes = [\<lparr>g_id = 2, g_refseq_acc = ''GCF_000002''\<rparr>,
                 \<lparr>g_id = 1, g_refseq_acc = ''GCF_000001''\<rparr>],
      genome_annotations = [\<lparr>ga_genome_id = 1, ga_taxon_id = 10\<rparr>,
                            \<lparr>ga_genome_id = 2, ga_taxon_id = 10\<rparr>],
      taxa = [\<lparr>t_id = 10, t_name = ''Escherichia coli'', t_rank = ''species''\<rparr>],
      fault = None,
      plan = (\<lambda>sql p. [1])\<rparr>"

text \<open>The same tables behind an engine that fails on every statement.\<close>

definition broken_db :: database where
  "broken_db = ecoli_db\<lparr>fault := Some ''no such table: genomes''\<rparr>"

text \<open>A species whose only genome has a comma inside its accession.\<close>

definition comma_db :: database where
  "comma_db =
     \<lparr>genomes = [\<lparr>g_id = 1, g_refseq_acc = ''GCF_1,GCF_2''\<rparr>],
      genome_annotations = [\<lparr>ga_genome_id = 1, ga_taxon_id = 10\<rparr>],
      taxa = [\<lparr>t_id = 10, t_name = ''Escherichia coli'', t_rank = ''species''\<rparr>],
      fault = None,
      plan = (\<lambda>sql p. [])\<rparr>"

text \<open>A species with two genomes: the accession of the first holds a comma.\<close>

definition comma_acc_db :: database where
  "comma_acc_db =
     \<lparr>genomes = [\<lparr>g_id = 1, g_refseq_acc = ''GCF_000001,v2''\<rparr>,
                 \<lparr>g_id = 2, g_refseq_acc = ''GCF_000002''\<rparr>],
      genome_annotations = [\<lparr>ga_genome_id = 1, ga_taxon_id = 10\<rparr>,
                            \<lparr>ga_genome_id = 2, ga_taxon_id = 10\<rparr>],
      taxa = [\<lparr>t_id = 10, t_name = ''Bacillus subtilis'', t_rank = ''species''\<rparr>],
      fault = None,
      plan = (\<lambda>sql p. [])\<rparr>"

text \<open>A species whose name holds a comma; the accessions of its genomes hold none.\<close>

definition comma_name_db :: database where
  "comma_name_db =
     \<lparr>genomes = [\<lparr>g_id = 1, g_refseq_acc = ''GCF_000001''\<rparr>,
                 \<lparr>g_id = 2, g_refseq_acc = ''GCF_000002''\<rparr>],
      genome_annotations = [\<lparr>ga_genome_id = 1, ga_taxon_id = 10\<rparr>,
                            \<lparr>ga_genome_id = 2, ga_taxon_id = 10\<rparr>],
      taxa = [\<lparr>t_id = 10, t_name = ''Bacillus, unnamed'', t_rank = ''species''\<rparr>],
      fault = None,
      plan = (\<lambda>sql p. [])\<rparr>"

text \<open>A genome annotated to a taxon that is named Unknown.\<close>

definition unknown_db :: database where
  "unknown_db =
     \<lparr>genomes = [\<lparr>g_id = 1, g_refseq_acc = ''GCF_000001''\<rparr>],
      genome_annotations = [\<lparr>ga_genome_id = 1, ga_taxon_id = 10\<rparr>],
      taxa = [\<lparr>t_id = 10, t_name = ''Unknown'', t_rank = ''species''\<rparr>],
      fault = None,
      plan = (\<lambda>sql p. [])\<rparr>"

text \<open>A location that holds the scenario's database, and nothing that opens elsewhere.\<close>

definition example_fs :: filesystem where
  "example_fs location =
     (if location = ''gambit.gdb'' then Inr ecoli_db else Inl ''unable to open database file'')"

section \<open>Splitting and joining on the comma\<close>

lemma str_split_not_Nil: "str_split sep s \<noteq> []"
  by (induction s) (auto split: list.splits)

lemma str_split_no_sep: "sep \<notin> set x \<Longrightarrow> str_split sep x = [x]"
  by (induction x) auto

lemma str_split_append_sep:
  "sep \<notin> set x \<Longrightarrow> str_split sep (x @ sep # rest) = x # str_split sep rest"
  by (induction x) auto

lemma split_GROUP_CONCAT:
  "xs \<noteq> [] \<Longrightarrow> \<forall>x\<in>set xs. CHR '','' \<notin> set x \<Longrightarrow>
   str_split CHR '','' (GROUP_CONCAT xs) = xs"
  by (induction xs rule: GROUP_CONCAT.induct)
     (auto simp: str_split_no_sep str_split_append_sep)

lemma length_str_split: "length (str_split sep s) = Suc (count_list s sep)"
  by (induction s) (auto split: list.splits simp: str_split_not_Nil)

lemma count_GROUP_CONCAT:
  "xs \<noteq> [] \<Longrightarrow>
   Suc (count_list (GROUP_CONCAT xs) CHR '','') =
     length xs + sum_list (map (\<lambda>x. count_list x CHR '','') xs)"
  by (induction xs rule: GROUP_CONCAT.induct) auto

section \<open>The joins and the groups\<close>

lemma set_join_all:
  "set (join_all d) =
     {(g, ga, t). g \<in> set (genomes d) \<and> ga \<in> set (genome_annotations d) \<and> t \<in> set (taxa d)
        \<and> g_id g = ga_genome_id ga \<and> ga_taxon_id ga = t_id t}"
  by (auto simp: join_all_def)

lemma set_join_species:
  "set (join_species d) =
     {(g, ga, t). g \<in> set (genomes d) \<and> ga \<in> set (genome_annotations d) \<and> t \<in> set (taxa d)
        \<and> g_id g = ga_genome_id ga \<and> ga_taxon_id ga = t_id t \<and> t_rank t = ''species''}"
  by (auto simp: join_species_def)

text \<open>
  Selecting a column of the filtered join is the one comprehension over the three tables,
  in the same order.
\<close>

lemma select_join:
  "map f (filter P [h g ga t. g \<leftarrow> gs, ga \<leftarrow> gas, A g ga, t \<leftarrow> ts, C g ga t]) =
   [f (h g ga t). g \<leftarrow> gs, ga \<leftarrow> gas, t \<leftarrow> ts, A g ga \<and> C g ga t \<and> P (h g ga t)]"
proof -
  have inner: "map f (filter P (concat (map (\<lambda>t. if C g ga t then [h g ga t] else []) ts))) =
      concat (map (\<lambda>t. if C g ga t \<and> P (h g ga t) then [f (h g ga t)] else []) ts)" for g ga
    by (induction ts) auto
  have middle: "map f (filter P (concat (map (\<lambda>ga. if A g ga
          then concat (map (\<lambda>t. if C g ga t then [h g ga t] else []) ts) else []) gas))) =
      concat (map (\<lambda>ga. concat (map (\<lambda>t. if A g ga \<and> C g ga t \<and> P (h g ga t)
          then [f (h g ga t)] else []) ts)) gas)" for g
  proof (induction gas)
    case Nil
    show ?case by simp
  next
    case (Cons ga gas)
    show ?case
    proof (cases "A g ga")
      case True
      then show ?thesis using Cons inner [of g ga] by simp
    next
      case False
      then show ?thesis using Cons by simp
    qed
  qed
  show ?thesis
    by (induction gs) (simp_all add: middle)
qed

lemma names_of_join_all:
  "map (\<lambda>(g, ga, t). t_name t) (filter (\<lambda>(g, ga, t). g_refseq_acc g = p) (join_all d)) =
   taxon_names_of_accession d p"
  unfolding join_all_def taxon_names_of_accession_def
  using select_join [where f = "\<lambda>(g, ga, t). t_name t" and P = "\<lambda>(g, ga, t). g_refseq_acc g = p"
      and h = "\<lambda>g ga t. (g, ga, t)" and gs = "genomes d" and gas = "genome_annotations d"
      and A = "\<lambda>g ga. g_id g = ga_genome_id ga" and ts = "taxa d"
      and C = "\<lambda>g ga t. ga_taxon_id ga = t_id t"]
  by (simp cong: if_cong)

lemma names_of_join_species:
  "map (\<lambda>(g, ga, t). t_name t) (filter (\<lambda>(g, ga, t). g_refseq_acc g = p) (join_species d)) =
   species_names_of_accession d p"
  unfolding join_species_def species_names_of_accession_def
  using select_join [where f = "\<lambda>(g, ga, t). t_name t" and P = "\<lambda>(g, ga, t). g_refseq_acc g = p"
      and h = "\<lambda>g ga t. (g, ga, t)" and gs = "genomes d" and gas = "genome_annotations d"
      and A = "\<lambda>g ga. g_id g = ga_genome_id ga" and ts = "taxa d"
      and C = "\<lambda>g ga t. ga_taxon_id ga = t_id t \<and> t_rank t = ''species''"]
  by (simp add: conj_ac cong: if_cong)

lemma accessions_of_join_species:
  "map (\<lambda>(g, ga, t). g_refseq_acc g) (filter (\<lambda>(g, ga, t). t_name t = p) (join_species d)) =
   accessions_of_species d p"
  unfolding join_species_def accessions_of_species_def
  using select_join [where f = "\<lambda>(g, ga, t). g_refseq_acc g" and P = "\<lambda>(g, ga, t). t_name t = p"
      and h = "\<lambda>g ga t. (g, ga, t)" and gs = "genomes d" and gas = "genome_annotations d"
      and A = "\<lambda>g ga. g_id g = ga_genome_id ga" and ts = "taxa d"
      and C = "\<lambda>g ga t. ga_taxon_id ga = t_id t \<and> t_rank t = ''species''"]
  by (simp add: conj_ac cong: if_cong)

lemma remdups_const: "xs \<noteq> [] \<Longrightarrow> \<forall>x\<in>set xs. x = n \<Longrightarrow> remdups xs = [n]"
proof (induction xs)
  case Nil
  then show ?case by simp
next
  case (Cons a xs)
  show ?case
  proof (cases "xs = []")
    case True
    with Cons.prems show ?thesis by simp
  next
    case False
    with Cons have "remdups xs = [n]" by simp
    moreover have "a = n" using Cons.prems by simp
    moreover have "n \<in> set xs" using False Cons.prems by (cases xs) simp_all
    ultimately show ?thesis by simp
  qed
qed

lemma sort_eq_Nil: "sort xs = [] \<longleftrightarrow> xs = []"
  by (metis length_0_conv length_sort)

lemma group_by_name_Nil: "group_by_name [] = []"
  by (simp add: group_by_name_def)

lemma group_by_name_eq_Nil: "group_by_name js = [] \<longleftrightarrow> js = []"
  by (simp add: group_by_name_def sort_eq_Nil)

lemma group_by_name_one:
  assumes "js \<noteq> []" and "\<forall>j\<in>set js. t_name (snd (snd j)) = n"
  shows "group_by_name js = [[n, GROUP_CONCAT (map (\<lambda>(g, ga, t). g_refseq_acc g) js)]]"
proof -
  have "remdups (map (\<lambda>(g, ga, t). t_name t) js) = [n]"
    using assms by (intro remdups_const) auto
  moreover have "filter (\<lambda>(g, ga, t). t_name t = n) js = js"
    using assms(2) by (auto simp: filter_id_conv)
  ultimately show ?thesis by (simp add: group_by_name_def)
qed

lemma group_by_name_width: "r \<in> set (group_by_name js) \<Longrightarrow> length r = 2"
  by (auto simp: group_by_name_def)

lemma group_by_name_first:
  "js \<noteq> [] \<Longrightarrow>
   \<exists>n acc. hd (group_by_name js) = [n, acc] \<and> n \<in> set (map (\<lambda>(g, ga, t). t_name t) js)"
proof -
  assume "js \<noteq> []"
  then have ne: "sort (remdups (map (\<lambda>(g, ga, t). t_name t) js)) \<noteq> []"
    by (simp add: sort_eq_Nil)
  then have "hd (sort (remdups (map (\<lambda>(g, ga, t). t_name t) js)))
      \<in> set (sort (remdups (map (\<lambda>(g, ga, t). t_name t) js)))"
    by (rule hd_in_set)
  then have "hd (sort (remdups (map (\<lambda>(g, ga, t). t_name t) js)))
      \<in> set (map (\<lambda>(g, ga, t). t_name t) js)"
    by simp
  then show ?thesis
    using ne by (auto simp: group_by_name_def hd_map)
qed

lemma set_taxon_names_of_accession:
  "set (taxon_names_of_accession d acc) =
     {t_name t | g ga t. g \<in> set (genomes d) \<and> ga \<in> set (genome_annotations d) \<and> t \<in> set (taxa d)
        \<and> g_id g = ga_genome_id ga \<and> ga_taxon_id ga = t_id t \<and> g_refseq_acc g = acc}"
  by (auto simp: taxon_names_of_accession_def)

lemma set_species_names_of_accession:
  "set (species_names_of_accession d acc) =
     {t_name t | g ga t. g \<in> set (genomes d) \<and> ga \<in> set (genome_annotations d) \<and> t \<in> set (taxa d)
        \<and> g_id g = ga_genome_id ga \<and> ga_taxon_id ga = t_id t \<and> t_rank t = ''species''
        \<and> g_refseq_acc g = acc}"
  by (auto simp: species_names_of_accession_def)

lemma set_accessions_of_species:
  "set (accessions_of_species d sp) =
     {g_refseq_acc g | g ga t. g \<in> set (genomes d) \<and> ga \<in> set (genome_annotations d) \<and> t \<in> set (taxa d)
        \<and> g_id g = ga_genome_id ga \<and> ga_taxon_id ga = t_id t \<and> t_rank t = ''species''
        \<and> t_name t = sp}"
  by (auto simp: accessions_of_species_def)

lemma round_trip_iff:
  assumes "xs \<noteq> []"
  shows "str_split CHR '','' (GROUP_CONCAT xs) = xs \<longleftrightarrow> (\<forall>x\<in>set xs. CHR '','' \<notin> set x)"
proof
  assume eq: "str_split CHR '','' (GROUP_CONCAT xs) = xs"
  have "length (str_split CHR '','' (GROUP_CONCAT xs)) =
      length xs + sum_list (map (\<lambda>x. count_list x CHR '','') xs)"
    using assms by (simp add: length_str_split count_GROUP_CONCAT)
  with eq have "sum_list (map (\<lambda>x. count_list x CHR '','') xs) = 0" by simp
  then have "\<forall>x\<in>set xs. count_list x CHR '','' = 0" by simp
  then show "\<forall>x\<in>set xs. CHR '','' \<notin> set x"
    by (simp add: count_list_0_iff)
next
  assume "\<forall>x\<in>set xs. CHR '','' \<notin> set x"
  with assms show "str_split CHR '','' (GROUP_CONCAT xs) = xs"
    by (rule split_GROUP_CONCAT)
qed

section \<open>The order of the engine\<close>

lemma mset_insert_at: "mset (insert_at k x ys) = add_mset x (mset ys)"
  by (induction k x ys rule: insert_at.induct) auto

lemma mset_permute: "mset (permute ks xs) = mset xs"
  by (induction ks xs rule: permute.induct) (auto simp: mset_insert_at)

lemma set_permute: "set (permute ks xs) = set xs"
  using mset_permute [of ks xs] by (rule mset_eq_setD)

lemma permute_eq_Nil: "permute ks xs = [] \<longleftrightarrow> xs = []"
  using mset_permute [of ks xs] by (metis mset_zero_iff)

lemma permute_Nil: "permute [] xs = xs"
  by (cases xs) simp_all

lemma insert_at_length: "insert_at (length as) x (as @ bs) = as @ x # bs"
  by (induction as) auto

text \<open>Every order of the rows is the order of some plan.\<close>

lemma permute_complete: "mset ys = mset xs \<Longrightarrow> \<exists>ks. permute ks xs = ys"
proof (induction xs arbitrary: ys)
  case Nil
  then have "ys = []" by simp
  then show ?case by simp
next
  case (Cons x xs)
  from Cons.prems have "x \<in> set ys"
    by (metis list.set_intros(1) mset_eq_setD)
  then obtain as bs where ys: "ys = as @ x # bs"
    by (auto dest: split_list)
  with Cons.prems have "mset (as @ bs) = mset xs" by simp
  from Cons.IH [OF this] obtain ks where "permute ks xs = as @ bs" ..
  then have "permute (length as # ks) (x # xs) = ys"
    by (simp add: ys insert_at_length)
  then show ?case ..
qed

lemma mset_engine_rows: "mset (engine_rows d sql p) = mset (matching_rows d sql p)"
  by (simp add: engine_rows_def mset_permute)

lemma set_engine_rows: "set (engine_rows d sql p) = set (matching_rows d sql p)"
  by (simp add: engine_rows_def set_permute)

lemma engine_rows_eq_Nil: "engine_rows d sql p = [] \<longleftrightarrow> matching_rows d sql p = []"
  by (simp add: engine_rows_def permute_eq_Nil)

lemma mset_map_engine_rows:
  "mset (map f (engine_rows d sql p)) = mset (map f (matching_rows d sql p))"
  by (simp add: mset_engine_rows)

lemma engine_taxon_names:
  "mset (map (\<lambda>(g, ga, t). t_name t) (engine_rows d Sql_find_species_from_accession p)) =
   mset (taxon_names_of_accession d p)"
  unfolding mset_map_engine_rows by (simp only: matching_rows.simps names_of_join_all)

lemma engine_species_names:
  "mset (map (\<lambda>(g, ga, t). t_name t) (engine_rows d Sql_get_species_from_genomes_accession p)) =
   mset (species_names_of_accession d p)"
  unfolding mset_map_engine_rows by (simp only: matching_rows.simps names_of_join_species)

lemma mset_aggregated_accessions:
  "mset (aggregated_accessions d sp) = mset (accessions_of_species d sp)"
  unfolding aggregated_accessions_def mset_map_engine_rows
  by (simp only: matching_rows.simps accessions_of_join_species)

lemma set_aggregated_accessions:
  "set (aggregated_accessions d sp) = set (accessions_of_species d sp)"
  using mset_aggregated_accessions by (rule mset_eq_setD)

lemma aggregated_accessions_eq_Nil:
  "aggregated_accessions d sp = [] \<longleftrightarrow> accessions_of_species d sp = []"
  using mset_aggregated_accessions [of d sp] by (metis mset_zero_iff)

section \<open>What each method computes\<close>

text \<open>
  Each method, run on any gateway (whatever is still pending on its cursor): with an engine
  that runs the statement, and with one that raises.
\<close>

lemmas run_defs = gateway_after_def logged_def outcome_of_def

lemma find_species_run:
  assumes "fault (conn (cursor self)) = None"
  shows "find_species_from_accession self acc =
     (self\<lparr>cursor := (cursor self)\<lparr>pending :=
        tl (run_statement (conn (cursor self)) Sql_find_species_from_accession acc)\<rparr>\<rparr>, [],
      Return (case run_statement (conn (cursor self)) Sql_find_species_from_accession acc of
                [] \<Rightarrow> ''Unknown'' | r # _ \<Rightarrow> hd r))"
proof (cases "engine_rows (conn (cursor self)) Sql_find_species_from_accession acc")
  case Nil
  then show ?thesis
    using assms by (simp add: find_species_from_accession_def execute_def fetchone_def)
next
  case (Cons j js)
  then show ?thesis
    using assms
    by (cases j) (simp add: find_species_from_accession_def execute_def fetchone_def)
qed

lemma find_species_fault:
  assumes "fault (conn (cursor self)) = Some msg"
  shows "find_species_from_accession self acc =
     (self\<lparr>cursor := (cursor self)\<lparr>pending := []\<rparr>\<rparr>, [], Raise (Sqlite3_Error msg))"
  using assms by (simp add: find_species_from_accession_def execute_def)

lemma get_species_run:
  assumes "fault (conn (cursor self)) = None"
  shows "get_species_from_genomes_accession_from_db self acc =
     (self\<lparr>cursor := (cursor self)\<lparr>pending := []\<rparr>\<rparr>, [],
      Return (case run_statement (conn (cursor self)) Sql_get_species_from_genomes_accession acc of
                [] \<Rightarrow> None | r # _ \<Rightarrow> Some (hd r)))"
proof -
  let ?rows = "run_statement (conn (cursor self)) Sql_get_species_from_genomes_accession acc"
  show ?thesis
  proof (cases ?rows)
    case Nil
    then show ?thesis
      using assms
      by (simp add: get_species_from_genomes_accession_from_db_def execute_def fetchall_def)
  next
    case (Cons r rs)
    then have "r \<in> set ?rows" by simp
    then have "length r = 2" by (auto dest: group_by_name_width)
    then have "subscript r 0 = Inr (hd r)"
      by (cases r) (simp_all add: subscript_def)
    then show ?thesis
      using assms Cons
      by (simp add: get_species_from_genomes_accession_from_db_def execute_def fetchall_def
          subscript_def)
  qed
qed

lemma get_species_fault:
  assumes "fault (conn (cursor self)) = Some msg"
  shows "get_species_from_genomes_accession_from_db self acc =
     (self\<lparr>cursor := (cursor self)\<lparr>pending := []\<rparr>\<rparr>,
      [''get_species_from_genomes_accession_from_db - Database query error: '' @ msg], Exit 1)"
  using assms by (simp add: get_species_from_genomes_accession_from_db_def execute_def)

lemma get_all_run:
  assumes "fault (conn (cursor self)) = None"
  shows "get_all_genomes_for_a_species_from_db self sp =
     (self\<lparr>cursor := (cursor self)\<lparr>pending := []\<rparr>\<rparr>, [],
      Return (if accessions_of_species (conn (cursor self)) sp = [] then Map.empty
              else [sp \<mapsto> str_split CHR '','' (GROUP_CONCAT (aggregated_accessions (conn (cursor self)) sp))]))"
proof -
  let ?js = "engine_rows (conn (cursor self)) Sql_get_all_genomes_for_a_species sp"
  have accs: "aggregated_accessions (conn (cursor self)) sp = map (\<lambda>(g, ga, t). g_refseq_acc g) ?js"
    by (simp add: aggregated_accessions_def)
  show ?thesis
  proof (cases "?js = []")
    case True
    then have "accessions_of_species (conn (cursor self)) sp = []"
      using aggregated_accessions_eq_Nil [of "conn (cursor self)" sp] by (simp add: accs)
    with True show ?thesis
      using assms
      by (simp add: get_all_genomes_for_a_species_from_db_def execute_def fetchall_def
          group_by_name_Nil)
  next
    case False
    then have ne: "accessions_of_species (conn (cursor self)) sp \<noteq> []"
      using aggregated_accessions_eq_Nil [of "conn (cursor self)" sp] by (simp add: accs)
    have "\<forall>j\<in>set ?js. t_name (snd (snd j)) = sp"
      by (auto simp: set_engine_rows)
    with False have "group_by_name ?js = [[sp, GROUP_CONCAT (map (\<lambda>(g, ga, t). g_refseq_acc g) ?js)]]"
      by (rule group_by_name_one)
    then show ?thesis
      using assms ne
      by (simp add: get_all_genomes_for_a_species_from_db_def execute_def fetchall_def accs
          subscript_def)
  qed
qed

lemma get_all_fault:
  assumes "fault (conn (cursor self)) = Some msg"
  shows "get_all_genomes_for_a_species_from_db self sp =
     (self\<lparr>cursor := (cursor self)\<lparr>pending := []\<rparr>\<rparr>,
      [''get_all_genomes_for_a_species_from_db - Database query error: '' @ msg], Exit 1)"
  using assms by (simp add: get_all_genomes_for_a_species_from_db_def execute_def)

text \<open>
  The lines logged and the outcome depend on the database only, not on what a previous
  call left on the cursor; and no method changes the database.
\<close>

lemma find_species_same_data:
  "conn (cursor s) = conn (cursor s') \<Longrightarrow>
   snd (find_species_from_accession s a) = snd (find_species_from_accession s' a)"
  by (cases "fault (conn (cursor s'))") (simp_all add: find_species_run find_species_fault)

lemma get_species_same_data:
  "conn (cursor s) = conn (cursor s') \<Longrightarrow>
   snd (get_species_from_genomes_accession_from_db s a) =
   snd (get_species_from_genomes_accession_from_db s' a)"
  by (cases "fault (conn (cursor s'))") (simp_all add: get_species_run get_species_fault)

lemma get_all_same_data:
  "conn (cursor s) = conn (cursor s') \<Longrightarrow>
   snd (get_all_genomes_for_a_species_from_db s a) = snd (get_all_genomes_for_a_species_from_db s' a)"
  by (cases "fault (conn (cursor s'))") (simp_all add: get_all_run get_all_fault)

lemma find_species_keeps_data:
  "conn (cursor (fst (find_species_from_accession s a))) = conn (cursor s)"
  by (cases "fault (conn (cursor s))") (simp_all add: find_species_run find_species_fault)

lemma get_species_keeps_data:
  "conn (cursor (fst (get_species_from_genomes_accession_from_db s a))) = conn (cursor s)"
  by (cases "fault (conn (cursor s))") (simp_all add: get_species_run get_species_fault)

lemma get_all_keeps_data:
  "conn (cursor (fst (get_all_genomes_for_a_species_from_db s a))) = conn (cursor s)"
  by (cases "fault (conn (cursor s))") (simp_all add: get_all_run get_all_fault)

lemma dict_of_rows_values:
  "dict_of_rows rows m0 = Inr m \<Longrightarrow> (\<And>k v. m0 k = Some v \<Longrightarrow> v \<noteq> []) \<Longrightarrow>
   m k = Some v \<Longrightarrow> v \<noteq> []"
proof (induction rows arbitrary: m0)
  case Nil
  then show ?case by simp
next
  case (Cons row rows)
  from Cons.prems(1) obtain k0 v0 where k0: "subscript row 0 = Inr k0"
    and v0: "subscript row 1 = Inr v0"
    and rest: "dict_of_rows rows (m0(k0 \<mapsto> str_split CHR '','' v0)) = Inr m"
    by (auto split: sum.splits)
  have "\<And>k' v'. (m0(k0 \<mapsto> str_split CHR '','' v0)) k' = Some v' \<Longrightarrow> v' \<noteq> []"
    using Cons.prems(2) by (auto simp: str_split_not_Nil split: if_splits)
  from Cons.IH [OF rest this Cons.prems(3)] show ?case .
qed

lemma singleton_map_eq: "[k \<mapsto> a] = [k \<mapsto> b] \<longleftrightarrow> a = b"
  by (auto dest: map_upd_eqD1)

text \<open>
  The constructor lets through what \<open>except sqlite3.Error\<close> does not catch: a file
  name with a NUL byte in it makes \<open>sqlite3.connect\<close> raise \<open>ValueError\<close>.
\<close>

lemma constructor_raises_other_exceptions:
  "CHR 0x00 \<in> set filename \<Longrightarrow>
   DatabaseQueries fs filename = ([], Raise (ValueError ''embedded null byte''))"
  by (simp add: DatabaseQueries_def connect_to_db_def sqlite3_connect_def)

section \<open>The example databases, evaluated\<close>

lemma ecoli_accessions:
  "accessions_of_species ecoli_db ''Escherichia coli'' = [''GCF_000001'', ''GCF_000002'']"
  by (simp add: accessions_of_species_def ecoli_db_def)

lemma ecoli_aggregated:
  "aggregated_accessions ecoli_db ''Escherichia coli'' = [''GCF_000001'', ''GCF_000002'']"
  by (simp add: aggregated_accessions_def engine_rows_def join_species_def ecoli_db_def)

lemma ecoli_no_salmonella: "accessions_of_species ecoli_db ''Salmonella enterica'' = []"
  by (simp add: accessions_of_species_def ecoli_db_def)

lemma planned_accessions:
  "accessions_of_species planned_db ''Escherichia coli'' = [''GCF_000002'', ''GCF_000001'']"
  by (simp add: accessions_of_species_def planned_db_def)

lemma planned_aggregated:
  "aggregated_accessions planned_db ''Escherichia coli'' = [''GCF_000001'', ''GCF_000002'']"
  by (simp add: aggregated_accessions_def engine_rows_def join_species_def planned_db_def)

lemma comma_accessions: "accessions_of_species comma_db ''Escherichia coli'' = [''GCF_1,GCF_2'']"
  by (simp add: accessions_of_species_def comma_db_def)

lemma comma_aggregated: "aggregated_accessions comma_db ''Escherichia coli'' = [''GCF_1,GCF_2'']"
  by (simp add: aggregated_accessions_def engine_rows_def join_species_def comma_db_def)

lemma comma_name_accessions:
  "accessions_of_species comma_name_db ''Bacillus, unnamed'' = [''GCF_000001'', ''GCF_000002'']"
  by (simp add: accessions_of_species_def comma_name_db_def)

lemma comma_name_aggregated:
  "aggregated_accessions comma_name_db ''Bacillus, unnamed'' = [''GCF_000001'', ''GCF_000002'']"
  by (simp add: aggregated_accessions_def engine_rows_def join_species_def comma_name_db_def)

lemma comma_acc_accessions:
  "accessions_of_species comma_acc_db ''Bacillus subtilis'' = [''GCF_000001,v2'', ''GCF_000002'']"
  by (simp add: accessions_of_species_def comma_acc_db_def)

lemma comma_acc_aggregated:
  "aggregated_accessions comma_acc_db ''Bacillus subtilis'' = [''GCF_000001,v2'', ''GCF_000002'']"
  by (simp add: aggregated_accessions_def engine_rows_def join_species_def comma_acc_db_def)

lemma ranks_names_2: "taxon_names_of_accession ranks_db ''GCF_000002'' = [''Escherichia'']"
  by (simp add: taxon_names_of_accession_def ranks_db_def)

lemma ranks_names_absent: "taxon_names_of_accession ranks_db ''GCF_999999'' = []"
  by (simp add: taxon_names_of_accession_def ranks_db_def)

lemma ranks_find_rows_2:
  "run_statement ranks_db Sql_find_species_from_accession ''GCF_000002'' = [[''Escherichia'']]"
  by (simp add: engine_rows_def join_all_def ranks_db_def)

lemma ranks_species_1: "species_names_of_accession ranks_db ''GCF_000001'' = [''Escherichia coli'']"
  by (simp add: species_names_of_accession_def ranks_db_def)

lemma ranks_species_2: "species_names_of_accession ranks_db ''GCF_000002'' = []"
  by (simp add: species_names_of_accession_def ranks_db_def)

lemma ranks_rows_1:
  "run_statement ranks_db Sql_get_species_from_genomes_accession ''GCF_000001'' =
     [[''Escherichia coli'', ''GCF_000001'']]"
  by (simp add: group_by_name_def engine_rows_def join_species_def ranks_db_def)

section \<open>The claims\<close>

text \<open>
  Claim C1 as stated fails where an accession holds a comma. In \<open>comma_db\<close> the one
  genome annotated to Escherichia coli has the accession \<open>GCF_1,GCF_2\<close>; the method
  returns the two pieces \<open>GCF_1\<close> and \<open>GCF_2\<close>, which is not the sequence of the
  accessions annotated to the species.
\<close>

theorem all_genomes_for_species_mapping_counterexample:
  "fault (conn (cursor (gateway_on comma_db))) = None
   \<and> accessions_of_species comma_db ''Escherichia coli'' = [''GCF_1,GCF_2'']
   \<and> outcome_of (get_all_genomes_for_a_species_from_db (gateway_on comma_db) ''Escherichia coli'') =
       Return [''Escherichia coli'' \<mapsto> [''GCF_1'', ''GCF_2'']]
   \<and> outcome_of (get_all_genomes_for_a_species_from_db (gateway_on comma_db) ''Escherichia coli'') \<noteq>
       Return [''Escherichia coli'' \<mapsto> accessions_of_species comma_db ''Escherichia coli'']"
proof -
  have h: "fault (conn (cursor (gateway_on comma_db))) = None"
    by (simp add: gateway_on_def comma_db_def)
  have c: "conn (cursor (gateway_on comma_db)) = comma_db"
    by (simp add: gateway_on_def)
  show ?thesis
    using h
    by (simp add: get_all_run [OF h] outcome_of_def c comma_accessions comma_aggregated
        singleton_map_eq)
qed

text \<open>
  Claim C1 (as amended). When the engine runs the statement,
  \<open>get_all_genomes_for_a_species_from_db\<close> returns a mapping from the species name to
  the pieces of the comma-aggregated accessions: the empty mapping when no genome is annotated
  at species rank to a taxon of that name, and otherwise the mapping with the one key equal to
  the given name. The strings the engine aggregates are the accessions annotated to the
  species at species rank, each as often as it is annotated, in the order of the engine.
  Provided none of them holds a comma, the value under the key is that complete sequence, in
  the order of aggregation.
\<close>

theorem all_genomes_for_species_mapping:
  assumes "fault (conn (cursor self)) = None"
  shows "outcome_of (get_all_genomes_for_a_species_from_db self species) =
           Return (if accessions_of_species (conn (cursor self)) species = [] then Map.empty
                   else [species \<mapsto>
                     str_split CHR '','' (GROUP_CONCAT (aggregated_accessions (conn (cursor self)) species))])
         \<and> mset (aggregated_accessions (conn (cursor self)) species) =
             mset (accessions_of_species (conn (cursor self)) species)
         \<and> ((\<forall>a\<in>set (accessions_of_species (conn (cursor self)) species). CHR '','' \<notin> set a) \<longrightarrow>
              outcome_of (get_all_genomes_for_a_species_from_db self species) =
                Return (if accessions_of_species (conn (cursor self)) species = [] then Map.empty
                        else [species \<mapsto> aggregated_accessions (conn (cursor self)) species]))"
proof -
  let ?d = "conn (cursor self)"
  have "str_split CHR '','' (GROUP_CONCAT (aggregated_accessions ?d species)) =
      aggregated_accessions ?d species"
    if "accessions_of_species ?d species \<noteq> []"
      and "\<forall>a\<in>set (accessions_of_species ?d species). CHR '','' \<notin> set a"
  proof (rule split_GROUP_CONCAT)
    from that(1) show "aggregated_accessions ?d species \<noteq> []"
      by (simp add: aggregated_accessions_eq_Nil)
    from that(2) show "\<forall>x\<in>set (aggregated_accessions ?d species). CHR '','' \<notin> set x"
      by (simp add: set_aggregated_accessions)
  qed
  then show ?thesis
    using assms by (simp add: get_all_run outcome_of_def mset_aggregated_accessions)
qed

text \<open>
  The scenario of the specification, with an engine that aggregates in the order of
  insertion: the call with Escherichia coli returns the two accessions under that one key,
  and a name that no taxon has gives the empty mapping. In \<open>planned_db\<close> the engine
  aggregates in another order than the genomes were inserted in, and the value follows the
  engine.
\<close>

theorem all_genomes_for_species_mapping_witness:
  "fault (conn (cursor (gateway_on ecoli_db))) = None
   \<and> accessions_of_species (conn (cursor (gateway_on ecoli_db))) ''Escherichia coli'' =
       [''GCF_000001'', ''GCF_000002'']
   \<and> CHR '','' \<notin> set ''GCF_000001'' \<and> CHR '','' \<notin> set ''GCF_000002''
   \<and> outcome_of (get_all_genomes_for_a_species_from_db (gateway_on ecoli_db) ''Escherichia coli'') =
       Return [''Escherichia coli'' \<mapsto> [''GCF_000001'', ''GCF_000002'']]
   \<and> outcome_of (get_all_genomes_for_a_species_from_db (gateway_on ecoli_db) ''Salmonella enterica'') =
       Return Map.empty
   \<and> fault (conn (cursor (gateway_on planned_db))) = None
   \<and> accessions_of_species (conn (cursor (gateway_on planned_db))) ''Escherichia coli'' =
       [''GCF_000002'', ''GCF_000001'']
   \<and> outcome_of (get_all_genomes_for_a_species_from_db (gateway_on planned_db) ''Escherichia coli'') =
       Return [''Escherichia coli'' \<mapsto> [''GCF_000001'', ''GCF_000002'']]"
proof -
  have h: "fault (conn (cursor (gateway_on ecoli_db))) = None"
    by (simp add: gateway_on_def ecoli_db_def)
  have c: "conn (cursor (gateway_on ecoli_db)) = ecoli_db"
    by (simp add: gateway_on_def)
  have h': "fault (conn (cursor (gateway_on planned_db))) = None"
    by (simp add: gateway_on_def planned_db_def)
  have c': "conn (cursor (gateway_on planned_db)) = planned_db"
    by (simp add: gateway_on_def)
  show ?thesis
    using h h' all_genomes_for_species_mapping [OF h, of "''Escherichia coli''"]
      all_genomes_for_species_mapping [OF h, of "''Salmonella enterica''"]
      all_genomes_for_species_mapping [OF h', of "''Escherichia coli''"]
    by (simp add: c c' ecoli_accessions ecoli_aggregated ecoli_no_salmonella
        planned_accessions planned_aggregated)
qed

text \<open>
  Claim C2. When the engine runs the statement, \<open>find_species_from_accession\<close> returns
  the name in the first row the engine yields for the three-way join of genomes,
  genome_annotations and taxa filtered by the accession, with no filter on the rank: the name
  of a taxon, of any rank, that a genome with the accession is annotated to. When no triple
  of rows matches, it returns the string \<open>Unknown\<close>.
\<close>

theorem find_species_first_name_or_unknown:
  assumes "fault (conn (cursor self)) = None"
  shows "((\<nexists>g ga t. g \<in> set (genomes (conn (cursor self)))
                \<and> ga \<in> set (genome_annotations (conn (cursor self)))
                \<and> t \<in> set (taxa (conn (cursor self)))
                \<and> g_id g = ga_genome_id ga \<and> ga_taxon_id ga = t_id t \<and> g_refseq_acc g = acc) \<longrightarrow>
            outcome_of (find_species_from_accession self acc) = Return ''Unknown'')
         \<and> (taxon_names_of_accession (conn (cursor self)) acc = [] \<longrightarrow>
              outcome_of (find_species_from_accession self acc) = Return ''Unknown'')
         \<and> (taxon_names_of_accession (conn (cursor self)) acc \<noteq> [] \<longrightarrow>
              outcome_of (find_species_from_accession self acc) =
                Return (hd (hd (run_statement (conn (cursor self))
                                  Sql_find_species_from_accession acc)))
              \<and> (\<exists>n\<in>set (taxon_names_of_accession (conn (cursor self)) acc).
                    outcome_of (find_species_from_accession self acc) = Return n))"
proof -
  let ?d = "conn (cursor self)"
  let ?js = "engine_rows ?d Sql_find_species_from_accession acc"
  let ?rows = "run_statement ?d Sql_find_species_from_accession acc"
  have names: "mset (map (\<lambda>(g, ga, t). t_name t) ?js) = mset (taxon_names_of_accession ?d acc)"
    by (rule engine_taxon_names)
  have run: "outcome_of (find_species_from_accession self acc) =
      Return (case ?rows of [] \<Rightarrow> ''Unknown'' | r # _ \<Rightarrow> hd r)"
    using assms by (simp add: find_species_run outcome_of_def)
  have none: "taxon_names_of_accession ?d acc = []"
    if "\<nexists>g ga t. g \<in> set (genomes ?d) \<and> ga \<in> set (genome_annotations ?d) \<and> t \<in> set (taxa ?d)
          \<and> g_id g = ga_genome_id ga \<and> ga_taxon_id ga = t_id t \<and> g_refseq_acc g = acc"
  proof -
    from that have "set (taxon_names_of_accession ?d acc) = {}"
      unfolding set_taxon_names_of_accession by blast
    then show ?thesis by simp
  qed
  show ?thesis
  proof (cases ?js)
    case Nil
    with names have "taxon_names_of_accession ?d acc = []" by simp
    moreover from Nil run have "outcome_of (find_species_from_accession self acc) = Return ''Unknown''"
      by simp
    ultimately show ?thesis by simp
  next
    case (Cons j js)
    obtain g ga t where j: "j = (g, ga, t)" by (cases j)
    from Cons j run have out: "outcome_of (find_species_from_accession self acc) = Return (t_name t)"
      by simp
    from Cons j have first: "hd (hd ?rows) = t_name t" by simp
    from Cons j have "t_name t \<in> set (map (\<lambda>(g, ga, t). t_name t) ?js)" by simp
    then have mem: "t_name t \<in> set (taxon_names_of_accession ?d acc)"
      using names by (metis mset_eq_setD)
    then have ne: "taxon_names_of_accession ?d acc \<noteq> []" by auto
    from out first mem ne none show ?thesis by auto
  qed
qed

text \<open>
  A genome annotated to a genus only resolves to the genus, whatever the rank; an
  accession that no genome has resolves to \<open>Unknown\<close>.
\<close>

theorem find_species_first_name_or_unknown_witness:
  "fault (conn (cursor (gateway_on ranks_db))) = None
   \<and> taxon_names_of_accession (conn (cursor (gateway_on ranks_db))) ''GCF_000002'' \<noteq> []
   \<and> outcome_of (find_species_from_accession (gateway_on ranks_db) ''GCF_000002'') = Return ''Escherichia''
   \<and> (\<nexists>g ga t. g \<in> set (genomes (conn (cursor (gateway_on ranks_db))))
          \<and> ga \<in> set (genome_annotations (conn (cursor (gateway_on ranks_db))))
          \<and> t \<in> set (taxa (conn (cursor (gateway_on ranks_db))))
          \<and> g_id g = ga_genome_id ga \<and> ga_taxon_id ga = t_id t \<and> g_refseq_acc g = ''GCF_999999'')
   \<and> taxon_names_of_accession (conn (cursor (gateway_on ranks_db))) ''GCF_999999'' = []
   \<and> outcome_of (find_species_from_accession (gateway_on ranks_db) ''GCF_999999'') = Return ''Unknown''"
proof -
  have c: "conn (cursor (gateway_on ranks_db)) = ranks_db"
    by (simp add: gateway_on_def)
  have h: "fault (conn (cursor (gateway_on ranks_db))) = None"
    by (simp add: gateway_on_def ranks_db_def)
  have none: "\<nexists>g ga t. g \<in> set (genomes (conn (cursor (gateway_on ranks_db))))
          \<and> ga \<in> set (genome_annotations (conn (cursor (gateway_on ranks_db))))
          \<and> t \<in> set (taxa (conn (cursor (gateway_on ranks_db))))
          \<and> g_id g = ga_genome_id ga \<and> ga_taxon_id ga = t_id t \<and> g_refseq_acc g = ''GCF_999999''"
    unfolding c by (auto simp: ranks_db_def)
  show ?thesis
    using h none find_species_first_name_or_unknown [OF h, of "''GCF_000002''"]
      find_species_first_name_or_unknown [OF h, of "''GCF_999999''"]
    by (simp add: c ranks_names_2 ranks_names_absent ranks_find_rows_2 del: run_statement.simps)
qed

text \<open>
  Claim C3. When the engine runs the statement, \<open>get_species_from_genomes_accession_from_db\<close>
  returns \<open>None\<close> when the join filtered by the species rank and the accession has no
  row, and otherwise the first column of the first row of the result, which is the name of
  a species-rank taxon annotated to a genome with that accession. The absent value is
  \<open>None\<close>, not a string.
\<close>

theorem species_rank_lookup_name_or_none:
  assumes "fault (conn (cursor self)) = None"
  shows "(species_names_of_accession (conn (cursor self)) genome_accession = [] \<longrightarrow>
            outcome_of (get_species_from_genomes_accession_from_db self genome_accession) = Return None)
         \<and> (species_names_of_accession (conn (cursor self)) genome_accession \<noteq> [] \<longrightarrow>
              outcome_of (get_species_from_genomes_accession_from_db self genome_accession) =
                Return (Some (hd (hd (run_statement (conn (cursor self))
                                        Sql_get_species_from_genomes_accession genome_accession))))
              \<and> (\<exists>n\<in>set (species_names_of_accession (conn (cursor self)) genome_accession).
                    outcome_of (get_species_from_genomes_accession_from_db self genome_accession) =
                      Return (Some n)))"
proof -
  let ?d = "conn (cursor self)"
  let ?js = "engine_rows ?d Sql_get_species_from_genomes_accession genome_accession"
  let ?rows = "run_statement ?d Sql_get_species_from_genomes_accession genome_accession"
  have names: "mset (map (\<lambda>(g, ga, t). t_name t) ?js) =
      mset (species_names_of_accession ?d genome_accession)"
    by (rule engine_species_names)
  have run: "outcome_of (get_species_from_genomes_accession_from_db self genome_accession) =
      Return (case ?rows of [] \<Rightarrow> None | r # _ \<Rightarrow> Some (hd r))"
    using assms by (simp add: get_species_run outcome_of_def)
  show ?thesis
  proof (cases "?js = []")
    case True
    then have "?rows = []" by (simp add: group_by_name_Nil)
    moreover from True names have "species_names_of_accession ?d genome_accession = []" by simp
    ultimately show ?thesis using run by simp
  next
    case False
    then have ne: "?rows \<noteq> []" by (simp add: group_by_name_eq_Nil)
    have rows: "?rows = group_by_name ?js" by simp
    from group_by_name_first [OF False] obtain n acc
      where first: "hd ?rows = [n, acc]" and n: "n \<in> set (map (\<lambda>(g, ga, t). t_name t) ?js)"
      unfolding rows by blast
    from ne run have "outcome_of (get_species_from_genomes_accession_from_db self genome_accession) =
        Return (Some (hd (hd ?rows)))"
      by (cases ?rows) simp_all
    moreover from n names have "n \<in> set (species_names_of_accession ?d genome_accession)"
      by (metis mset_eq_setD)
    with first have "hd (hd ?rows) \<in> set (species_names_of_accession ?d genome_accession)"
      by (simp only: list.sel)
    moreover from this have "species_names_of_accession ?d genome_accession \<noteq> []"
      by auto
    ultimately show ?thesis by simp
  qed
qed

text \<open>
  In \<open>ranks_db\<close> the first genome has a species and the second has a genus only: the
  second gives \<open>None\<close>.
\<close>

theorem species_rank_lookup_name_or_none_witness:
  "fault (conn (cursor (gateway_on ranks_db))) = None
   \<and> species_names_of_accession (conn (cursor (gateway_on ranks_db))) ''GCF_000001'' \<noteq> []
   \<and> outcome_of (get_species_from_genomes_accession_from_db (gateway_on ranks_db) ''GCF_000001'') =
       Return (Some ''Escherichia coli'')
   \<and> species_names_of_accession (conn (cursor (gateway_on ranks_db))) ''GCF_000002'' = []
   \<and> outcome_of (get_species_from_genomes_accession_from_db (gateway_on ranks_db) ''GCF_000002'') =
       Return None"
proof -
  have c: "conn (cursor (gateway_on ranks_db)) = ranks_db"
    by (simp add: gateway_on_def)
  have h: "fault (conn (cursor (gateway_on ranks_db))) = None"
    by (simp add: gateway_on_def ranks_db_def)
  show ?thesis
    using h species_rank_lookup_name_or_none [OF h, of "''GCF_000001''"] species_rank_lookup_name_or_none [OF h, of "''GCF_000002''"]
    by (simp add: c ranks_species_1 ranks_species_2 ranks_rows_1 del: run_statement.simps)
qed

text \<open>
  Claim C4. When the engine raises a database error,
  \<open>get_species_from_genomes_accession_from_db\<close> and
  \<open>get_all_genomes_for_a_species_from_db\<close> each log one line, made of the method's own
  prefix and the message of the error, and end the process with exit status 1. Whatever the
  database and the input, neither method raises an exception to its caller.
\<close>

theorem query_errors_log_and_exit:
  "(fault (conn (cursor self)) = Some msg \<longrightarrow>
      logged (get_species_from_genomes_accession_from_db self genome_accession) =
        [''get_species_from_genomes_accession_from_db - Database query error: '' @ msg]
      \<and> outcome_of (get_species_from_genomes_accession_from_db self genome_accession) = Exit 1
      \<and> logged (get_all_genomes_for_a_species_from_db self species) =
        [''get_all_genomes_for_a_species_from_db - Database query error: '' @ msg]
      \<and> outcome_of (get_all_genomes_for_a_species_from_db self species) = Exit 1)
   \<and> (\<forall>e. outcome_of (get_species_from_genomes_accession_from_db self genome_accession) \<noteq> Raise e)
   \<and> (\<forall>e. outcome_of (get_all_genomes_for_a_species_from_db self species) \<noteq> Raise e)"
proof (cases "fault (conn (cursor self))")
  case None
  then show ?thesis
    by (simp add: get_species_run get_all_run outcome_of_def split: list.splits)
next
  case (Some m)
  then show ?thesis
    by (simp add: get_species_fault get_all_fault run_defs)
qed

text \<open>Both methods on an engine that reports a missing table.\<close>

theorem query_errors_log_and_exit_witness:
  "fault (conn (cursor (gateway_on broken_db))) = Some ''no such table: genomes''
   \<and> logged (get_species_from_genomes_accession_from_db (gateway_on broken_db) ''GCF_000001'') =
       [''get_species_from_genomes_accession_from_db - Database query error: no such table: genomes'']
   \<and> outcome_of (get_species_from_genomes_accession_from_db (gateway_on broken_db) ''GCF_000001'') = Exit 1
   \<and> logged (get_all_genomes_for_a_species_from_db (gateway_on broken_db) ''Escherichia coli'') =
       [''get_all_genomes_for_a_species_from_db - Database query error: no such table: genomes'']
   \<and> outcome_of (get_all_genomes_for_a_species_from_db (gateway_on broken_db) ''Escherichia coli'') = Exit 1"
proof -
  have h: "fault (conn (cursor (gateway_on broken_db))) = Some ''no such table: genomes''"
    by (simp add: gateway_on_def broken_db_def)
  show ?thesis
    using h query_errors_log_and_exit [of "gateway_on broken_db" "''no such table: genomes''" "''GCF_000001''" "''Escherichia coli''"]
    by simp
qed

text \<open>
  Claim C5. \<open>find_species_from_accession\<close> catches no database error: when the engine
  raises one, the method raises it to its caller and logs nothing.
\<close>

theorem find_species_raises_database_error:
  assumes "fault (conn (cursor self)) = Some msg"
  shows "outcome_of (find_species_from_accession self closest_accession) = Raise (Sqlite3_Error msg)
         \<and> logged (find_species_from_accession self closest_accession) = []"
  using assms by (simp add: find_species_fault run_defs)

text \<open>The broad lookup on an engine that reports a missing table.\<close>

theorem find_species_raises_database_error_witness:
  "fault (conn (cursor (gateway_on broken_db))) = Some ''no such table: genomes''
   \<and> outcome_of (find_species_from_accession (gateway_on broken_db) ''GCF_000001'') =
       Raise (Sqlite3_Error ''no such table: genomes'')
   \<and> logged (find_species_from_accession (gateway_on broken_db) ''GCF_000001'') = []"
proof -
  have h: "fault (conn (cursor (gateway_on broken_db))) = Some ''no such table: genomes''"
    by (simp add: gateway_on_def broken_db_def)
  show ?thesis
    using h find_species_raises_database_error [OF h, of "''GCF_000001''"] by simp
qed

text \<open>
  Claim C6. The constructor connects to the given location and takes a cursor: when
  \<open>sqlite3.connect\<close> opens the database, the new gateway holds the file name and a cursor
  on that database, with nothing pending. When connecting raises a database error, the
  constructor logs one line with the message and ends the process with exit status 1, and
  raises no exception to its caller.
\<close>

theorem constructor_connects_or_exits:
  "(sqlite3_connect fs filename = Inr d \<longrightarrow>
      DatabaseQueries fs filename =
        ([], Return \<lparr>database_filename = filename, cursor = \<lparr>conn = d, pending = []\<rparr>\<rparr>))
   \<and> (sqlite3_connect fs filename = Inl (Sqlite3_Error msg) \<longrightarrow>
        DatabaseQueries fs filename = ([''Error connecting to the database: '' @ msg], Exit 1)
        \<and> (\<forall>e. snd (DatabaseQueries fs filename) \<noteq> Raise e))"
  by (simp add: DatabaseQueries_def connect_to_db_def)

text \<open>A location that opens, and one that does not.\<close>

theorem constructor_connects_or_exits_witness:
  "sqlite3_connect example_fs ''gambit.gdb'' = Inr ecoli_db
   \<and> DatabaseQueries example_fs ''gambit.gdb'' = ([], Return (gateway_on ecoli_db))
   \<and> sqlite3_connect example_fs ''/nowhere/gambit.gdb'' =
       Inl (Sqlite3_Error ''unable to open database file'')
   \<and> DatabaseQueries example_fs ''/nowhere/gambit.gdb'' =
       ([''Error connecting to the database: unable to open database file''], Exit 1)"
proof -
  have a: "sqlite3_connect example_fs ''gambit.gdb'' = Inr ecoli_db"
    by (simp add: sqlite3_connect_def example_fs_def)
  have b: "sqlite3_connect example_fs ''/nowhere/gambit.gdb'' =
      Inl (Sqlite3_Error ''unable to open database file'')"
    by (simp add: sqlite3_connect_def example_fs_def)
  show ?thesis
    using a b constructor_connects_or_exits [of example_fs "''gambit.gdb''" ecoli_db "''x''"]
      constructor_connects_or_exits [of example_fs "''/nowhere/gambit.gdb''" ecoli_db
        "''unable to open database file''"]
    by (simp add: gateway_on_def)
qed

text \<open>
  Claim C7 as stated fails: the accessions \<open>GCF_000001,v2\<close> and \<open>GCF_000002\<close>
  of \<open>comma_acc_db\<close> come back as three strings.
\<close>

theorem accessions_round_trip_iff_no_comma_counterexample:
  "accessions_of_species comma_acc_db ''Bacillus subtilis'' = [''GCF_000001,v2'', ''GCF_000002'']
   \<and> str_split CHR '','' (GROUP_CONCAT (accessions_of_species comma_acc_db ''Bacillus subtilis'')) \<noteq>
       accessions_of_species comma_acc_db ''Bacillus subtilis''
   \<and> outcome_of (get_all_genomes_for_a_species_from_db (gateway_on comma_acc_db) ''Bacillus subtilis'') =
       Return [''Bacillus subtilis'' \<mapsto> [''GCF_000001'', ''v2'', ''GCF_000002'']]"
proof -
  have h: "fault (conn (cursor (gateway_on comma_acc_db))) = None"
    by (simp add: gateway_on_def comma_acc_db_def)
  have c: "conn (cursor (gateway_on comma_acc_db)) = comma_acc_db"
    by (simp add: gateway_on_def)
  show ?thesis
    by (simp add: get_all_run [OF h] outcome_of_def c comma_acc_accessions comma_acc_aggregated)
qed

text \<open>
  Claim C7 (as amended). For every species name, one that holds a comma included, with at
  least one genome annotated at species rank: the strings the engine aggregates are the
  accessions annotated to the species, each as often as it is annotated, and splitting the
  comma-aggregated string recovers exactly these strings, in the order of aggregation, if,
  and only if, none of the accessions holds a comma.
\<close>

theorem accessions_round_trip_iff_no_comma:
  assumes "fault (conn (cursor self)) = None"
    and "accessions_of_species (conn (cursor self)) species \<noteq> []"
  shows "(outcome_of (get_all_genomes_for_a_species_from_db self species) =
            Return [species \<mapsto> aggregated_accessions (conn (cursor self)) species]
          \<longleftrightarrow> (\<forall>a\<in>set (accessions_of_species (conn (cursor self)) species). CHR '','' \<notin> set a))
         \<and> mset (aggregated_accessions (conn (cursor self)) species) =
             mset (accessions_of_species (conn (cursor self)) species)"
proof -
  let ?d = "conn (cursor self)"
  from assms(2) have ne: "aggregated_accessions ?d species \<noteq> []"
    by (simp add: aggregated_accessions_eq_Nil)
  have "str_split CHR '','' (GROUP_CONCAT (aggregated_accessions ?d species)) =
      aggregated_accessions ?d species
    \<longleftrightarrow> (\<forall>a\<in>set (accessions_of_species ?d species). CHR '','' \<notin> set a)"
    using round_trip_iff [OF ne] by (simp add: set_aggregated_accessions)
  then show ?thesis
    using assms
    by (simp add: get_all_run outcome_of_def singleton_map_eq mset_aggregated_accessions)
qed

text \<open>A species name with a comma in it is the key unchanged, and its accessions come back.\<close>

theorem accessions_round_trip_iff_no_comma_witness:
  "fault (conn (cursor (gateway_on comma_name_db))) = None
   \<and> accessions_of_species (conn (cursor (gateway_on comma_name_db))) ''Bacillus, unnamed'' \<noteq> []
   \<and> CHR '','' \<in> set ''Bacillus, unnamed''
   \<and> outcome_of (get_all_genomes_for_a_species_from_db (gateway_on comma_name_db) ''Bacillus, unnamed'') =
       Return [''Bacillus, unnamed'' \<mapsto> [''GCF_000001'', ''GCF_000002'']]"
proof -
  have c: "conn (cursor (gateway_on comma_name_db)) = comma_name_db"
    by (simp add: gateway_on_def)
  have h: "fault (conn (cursor (gateway_on comma_name_db))) = None"
    by (simp add: gateway_on_def comma_name_db_def)
  have ne: "accessions_of_species (conn (cursor (gateway_on comma_name_db))) ''Bacillus, unnamed'' \<noteq> []"
    by (simp add: c comma_name_accessions)
  show ?thesis
    using h ne accessions_round_trip_iff_no_comma [OF h ne]
    by (simp add: c comma_name_accessions comma_name_aggregated)
qed

text \<open>
  Claim C8. Calling any of the three read operations a second time with the same input, on
  the gateway the first call left, gives the same outcome and logs the same lines as the
  first call.
\<close>

theorem read_operations_idempotent:
  "outcome_of (find_species_from_accession (gateway_after (find_species_from_accession self x)) x) =
     outcome_of (find_species_from_accession self x)
   \<and> logged (find_species_from_accession (gateway_after (find_species_from_accession self x)) x) =
     logged (find_species_from_accession self x)
   \<and> outcome_of (get_species_from_genomes_accession_from_db
        (gateway_after (get_species_from_genomes_accession_from_db self x)) x) =
     outcome_of (get_species_from_genomes_accession_from_db self x)
   \<and> logged (get_species_from_genomes_accession_from_db
        (gateway_after (get_species_from_genomes_accession_from_db self x)) x) =
     logged (get_species_from_genomes_accession_from_db self x)
   \<and> outcome_of (get_all_genomes_for_a_species_from_db
        (gateway_after (get_all_genomes_for_a_species_from_db self x)) x) =
     outcome_of (get_all_genomes_for_a_species_from_db self x)
   \<and> logged (get_all_genomes_for_a_species_from_db
        (gateway_after (get_all_genomes_for_a_species_from_db self x)) x) =
     logged (get_all_genomes_for_a_species_from_db self x)"
proof -
  have "snd (find_species_from_accession (fst (find_species_from_accession self x)) x) =
      snd (find_species_from_accession self x)"
    by (rule find_species_same_data) (rule find_species_keeps_data)
  moreover have "snd (get_species_from_genomes_accession_from_db
        (fst (get_species_from_genomes_accession_from_db self x)) x) =
      snd (get_species_from_genomes_accession_from_db self x)"
    by (rule get_species_same_data) (rule get_species_keeps_data)
  moreover have "snd (get_all_genomes_for_a_species_from_db
        (fst (get_all_genomes_for_a_species_from_db self x)) x) =
      snd (get_all_genomes_for_a_species_from_db self x)"
    by (rule get_all_same_data) (rule get_all_keeps_data)
  ultimately show ?thesis
    by (simp add: run_defs)
qed

text \<open>
  Claim C9. Every value of the mapping returned by
  \<open>get_all_genomes_for_a_species_from_db\<close> is a non-empty list.
\<close>

theorem all_genomes_values_nonempty:
  assumes "outcome_of (get_all_genomes_for_a_species_from_db self species) = Return m"
    and "m k = Some accessions"
  shows "accessions \<noteq> []"
proof (cases "fault (conn (cursor self))")
  case None
  then have "dict_of_rows (run_statement (conn (cursor self)) Sql_get_all_genomes_for_a_species species)
      Map.empty = Inr m"
    using assms(1)
    by (simp add: get_all_genomes_for_a_species_from_db_def execute_def fetchall_def outcome_of_def
        split: sum.splits del: run_statement.simps)
  from dict_of_rows_values [OF this _ assms(2)] show ?thesis by simp
next
  case (Some msg)
  with assms(1) show ?thesis
    by (simp add: get_all_fault outcome_of_def)
qed

text \<open>The mapping of the Escherichia coli scenario and its one value.\<close>

theorem all_genomes_values_nonempty_witness:
  "outcome_of (get_all_genomes_for_a_species_from_db (gateway_on ecoli_db) ''Escherichia coli'') =
     Return [''Escherichia coli'' \<mapsto> [''GCF_000001'', ''GCF_000002'']]
   \<and> [''Escherichia coli'' \<mapsto> [''GCF_000001'', ''GCF_000002'']] ''Escherichia coli'' =
       Some [''GCF_000001'', ''GCF_000002'']
   \<and> [''GCF_000001'', ''GCF_000002''] \<noteq> ([] :: string list)"
proof -
  have h: "fault (conn (cursor (gateway_on ecoli_db))) = None"
    by (simp add: gateway_on_def ecoli_db_def)
  have c: "conn (cursor (gateway_on ecoli_db)) = ecoli_db"
    by (simp add: gateway_on_def)
  have run: "outcome_of (get_all_genomes_for_a_species_from_db (gateway_on ecoli_db) ''Escherichia coli'') =
     Return [''Escherichia coli'' \<mapsto> [''GCF_000001'', ''GCF_000002'']]"
    by (simp add: get_all_run [OF h] outcome_of_def c ecoli_accessions ecoli_aggregated)
  have look: "[''Escherichia coli'' \<mapsto> [''GCF_000001'', ''GCF_000002'']] ''Escherichia coli'' =
       Some [''GCF_000001'', ''GCF_000002'']"
    by simp
  from run look all_genomes_values_nonempty [OF run look] show ?thesis by simp
qed

text \<open>
  Claim C10. The result \<open>Unknown\<close> of \<open>find_species_from_accession\<close> does not
  tell absence apart: there is a database with a genome annotated to a taxon named
  \<open>Unknown\<close>, where the method returns \<open>Unknown\<close> for that genome's accession as
  it does for an accession that no genome has.
\<close>

theorem unknown_is_ambiguous:
  "\<exists>self acc g ga t.
      g \<in> set (genomes (conn (cursor self)))
      \<and> ga \<in> set (genome_annotations (conn (cursor self)))
      \<and> t \<in> set (taxa (conn (cursor self)))
      \<and> g_id g = ga_genome_id ga \<and> ga_taxon_id ga = t_id t
      \<and> g_refseq_acc g = acc \<and> t_name t = ''Unknown''
      \<and> outcome_of (find_species_from_accession self acc) = Return ''Unknown''
      \<and> outcome_of (find_species_from_accession self ''GCF_999999'') = Return ''Unknown''
      \<and> taxon_names_of_accession (conn (cursor self)) ''GCF_999999'' = []"
proof -
  have h: "fault (conn (cursor (gateway_on unknown_db))) = None"
    by (simp add: gateway_on_def unknown_db_def)
  have c: "conn (cursor (gateway_on unknown_db)) = unknown_db"
    by (simp add: gateway_on_def)
  have present: "run_statement unknown_db Sql_find_species_from_accession ''GCF_000001'' = [[''Unknown'']]"
    by (simp add: engine_rows_def join_all_def unknown_db_def)
  have missing: "run_statement unknown_db Sql_find_species_from_accession ''GCF_999999'' = []"
    by (simp add: engine_rows_def join_all_def unknown_db_def)
  have absent: "taxon_names_of_accession unknown_db ''GCF_999999'' = []"
    by (simp add: taxon_names_of_accession_def unknown_db_def)
  have "\<lparr>g_id = 1, g_refseq_acc = ''GCF_000001''\<rparr> \<in> set (genomes (conn (cursor (gateway_on unknown_db))))
      \<and> \<lparr>ga_genome_id = 1, ga_taxon_id = 10\<rparr> \<in> set (genome_annotations (conn (cursor (gateway_on unknown_db))))
      \<and> \<lparr>t_id = 10, t_name = ''Unknown'', t_rank = ''species''\<rparr> \<in> set (taxa (conn (cursor (gateway_on unknown_db))))
      \<and> outcome_of (find_species_from_accession (gateway_on unknown_db) ''GCF_000001'') = Return ''Unknown''
      \<and> outcome_of (find_species_from_accession (gateway_on unknown_db) ''GCF_999999'') = Return ''Unknown''
      \<and> taxon_names_of_accession (conn (cursor (gateway_on unknown_db))) ''GCF_999999'' = []"
    by (simp add: find_species_run [OF h] outcome_of_def c present missing absent
        del: run_statement.simps)
       (simp add: unknown_db_def)
  then show ?thesis
    by (intro exI [of _ "gateway_on unknown_db"] exI [of _ "''GCF_000001''"]
        exI [of _ "\<lparr>g_id = 1, g_refseq_acc = ''GCF_000001''\<rparr>"]
        exI [of _ "\<lparr>ga_genome_id = 1, ga_taxon_id = 10\<rparr>"]
        exI [of _ "\<lparr>t_id = 10, t_name = ''Unknown'', t_rank = ''species''\<rparr>"]) simp
qed

end
